theory Spec2Isabelle
  imports Complex_Main
begin

section \<open>Liner cementing job calculator: the calculation engine\<close>

text \<open>
  A shallow embedding of \<^verbatim>\<open>backend/app/engine.py\<close> and of the request model
  of \<^verbatim>\<open>backend/app/main.py\<close>.

  Python floats are modelled by the reals: rounding, overflow, infinities and NaN
  are outside the model. Python ints are unbounded and modelled by \<open>int\<close>.
\<close>

subsection \<open>Python values and exceptions\<close>

text \<open>
  The payload is a \<^verbatim>\<open>Dict[str, Any]\<close>: its values are the values a decoded JSON
  document can hold. A dict is an association list read through \<open>map_of\<close>.
\<close>

datatype pyval =
    PNone
  | PBool bool
  | PInt int
  | PFloat real
  | PStr string
  | PList "pyval list"
  | PDict "(string \<times> pyval) list"

type_synonym pydict = "(string \<times> pyval) list"

datatype error =
    KeyError string
  | TypeError
  | ValueError
  | AttributeError

text \<open>Sequencing of statements that may raise: the first exception ends the run.\<close>

definition bind_r :: "error + 'a \<Rightarrow> ('a \<Rightarrow> error + 'b) \<Rightarrow> error + 'b" where
  "bind_r m f = (case m of Inl e \<Rightarrow> Inl e | Inr x \<Rightarrow> f x)"

text \<open>\<^verbatim>\<open>d[k]\<close> on a dict: KeyError when the key is absent.\<close>

definition dict_index :: "pydict \<Rightarrow> string \<Rightarrow> error + pyval" where
  "dict_index d k = (case map_of d k of None \<Rightarrow> Inl (KeyError k) | Some v \<Rightarrow> Inr v)"

text \<open>\<^verbatim>\<open>d.get(k, default)\<close> on a dict.\<close>

definition dict_get :: "pydict \<Rightarrow> string \<Rightarrow> pyval \<Rightarrow> pyval" where
  "dict_get d k dflt = (case map_of d k of None \<Rightarrow> dflt | Some v \<Rightarrow> v)"

text \<open>
  \<^verbatim>\<open>v.get(k, default)\<close> on an arbitrary value: only a dict has the method, any
  other value raises AttributeError.
\<close>

fun py_get :: "pyval \<Rightarrow> string \<Rightarrow> pyval \<Rightarrow> error + pyval" where
  "py_get (PDict d) k dflt = Inr (dict_get d k dflt)"
| "py_get _ k dflt = Inl AttributeError"

text \<open>
  The float value of a Python number. \<^verbatim>\<open>bool\<close> is a subclass of
  \<^verbatim>\<open>int\<close>, with \<^verbatim>\<open>True\<close> being 1 and \<^verbatim>\<open>False\<close> being 0.
\<close>

fun num_val :: "pyval \<Rightarrow> real option" where
  "num_val (PFloat x) = Some x"
| "num_val (PInt i) = Some (of_int i)"
| "num_val (PBool b) = Some (if b then 1 else 0)"
| "num_val _ = None"

text \<open>
  The builtin \<^verbatim>\<open>float(v)\<close>: a number is converted, a string is parsed, anything
  else is a TypeError. Parsing a string is the builtin's business and is a parameter
  \<open>str_float\<close> of the model: it gives \<open>None\<close> where Python raises ValueError.
\<close>

definition py_float :: "(string \<Rightarrow> real option) \<Rightarrow> pyval \<Rightarrow> error + real" where
  "py_float str_float v =
     (case num_val v of
        Some x \<Rightarrow> Inr x
      | None \<Rightarrow>
         (case v of
            PStr s \<Rightarrow> (case str_float s of None \<Rightarrow> Inl ValueError | Some x \<Rightarrow> Inr x)
          | _ \<Rightarrow> Inl TypeError))"

text \<open>\<^verbatim>\<open>v / 12\<close>: true division of a number by an int; TypeError on anything else.\<close>

definition py_div12 :: "pyval \<Rightarrow> error + real" where
  "py_div12 v = (case num_val v of Some x \<Rightarrow> Inr (x / 12) | None \<Rightarrow> Inl TypeError)"

subsection \<open>PipeSection\<close>

text \<open>
  The dataclass. Its generated constructor checks the keyword names, not the types of
  the values, so every field holds an arbitrary value.
\<close>

record PipeSection =
  od :: pyval
  id_p :: pyval
  wt :: pyval
  length_p :: pyval
  md :: pyval
  tvd :: pyval
  grade :: pyval

definition required_fields :: "string list" where
  "required_fields = [''od'', ''id'', ''wt'', ''length'', ''md'', ''tvd'']"

definition pipe_fields :: "string list" where
  "pipe_fields = required_fields @ [''grade'']"

text \<open>
  \<^verbatim>\<open>PipeSection(**v)\<close>: \<open>v\<close> must be a mapping, every key must be a parameter
  of the constructor, and the six parameters without a default must be there; each
  failure is a TypeError. \<open>grade\<close> defaults to the empty string.
\<close>

definition keys_ok :: "pydict \<Rightarrow> bool" where
  "keys_ok d \<longleftrightarrow>
     (\<forall>k \<in> set (map fst d). k \<in> set pipe_fields) \<and>
     (\<forall>k \<in> set required_fields. k \<in> set (map fst d))"

fun PipeSection_init :: "pyval \<Rightarrow> error + PipeSection" where
  "PipeSection_init (PDict d) =
     (if keys_ok d then
        Inr \<lparr> od = the (map_of d ''od''),
              id_p = the (map_of d ''id''),
              wt = the (map_of d ''wt''),
              length_p = the (map_of d ''length''),
              md = the (map_of d ''md''),
              tvd = the (map_of d ''tvd''),
              grade = dict_get d ''grade'' (PStr '''') \<rparr>
      else Inl TypeError)"
| "PipeSection_init _ = Inl TypeError"

subsection \<open>Engine.calculate\<close>

record CalcResult =
  cementVolume :: real
  mudPPG :: real
  annulusAreaFt2 :: real

text \<open>The nested helper \<^verbatim>\<open>area_ft2\<close>: \<^verbatim>\<open>math.pi * (d_in/12)**2 / 4\<close>.\<close>

definition area_ft2 :: "pyval \<Rightarrow> error + real" where
  "area_ft2 d_in = bind_r (py_div12 d_in) (\<lambda>q. Inr (pi * q ^ 2 / 4))"

definition BBL_PER_CUFT :: real where
  "BBL_PER_CUFT = 0.1781076"

text \<open>The default of line 23 for an absent \<^verbatim>\<open>dp2\<close>.\<close>

definition dp2_default :: pyval where
  "dp2_default = PDict [(''od'', PInt 0), (''id'', PInt 0), (''wt'', PInt 0),
     (''length'', PInt 0), (''md'', PInt 0), (''tvd'', PInt 0), (''grade'', PStr '''')]"

text \<open>
  The pattern \<^verbatim>\<open>float(payload.get(section, {}).get(key, default))\<close> of lines
  24, 25, 31 and 32.
\<close>

definition opt_float ::
  "(string \<Rightarrow> real option) \<Rightarrow> pydict \<Rightarrow> string \<Rightarrow> string \<Rightarrow> pyval \<Rightarrow> error + real" where
  "opt_float str_float payload section key dflt =
     bind_r (py_get (dict_get payload section (PDict [])) key dflt) (py_float str_float)"

text \<open>Lines 20 to 23: the four pipe sections.\<close>

definition required_section :: "pydict \<Rightarrow> string \<Rightarrow> error + PipeSection" where
  "required_section payload name = bind_r (dict_index payload name) PipeSection_init"

definition dp2_section :: "pydict \<Rightarrow> error + PipeSection" where
  "dp2_section payload = PipeSection_init (dict_get payload ''dp2'' dp2_default)"

text \<open>
  \<^verbatim>\<open>Engine.calculate(payload, find_tvd)\<close>, statement by statement. The engine has
  no fields, so \<^verbatim>\<open>self\<close> is dropped. \<^verbatim>\<open>max(0.0, x)\<close> is \<open>x\<close> when
  \<open>x > 0.0\<close> and \<open>0.0\<close> otherwise.
\<close>

definition calculate ::
  "(string \<Rightarrow> real option) \<Rightarrow> pydict \<Rightarrow> (real \<Rightarrow> real) option \<Rightarrow> error + CalcResult" where
  "calculate str_float payload find_tvd =
     bind_r (required_section payload ''casing'') (\<lambda>casing.
     bind_r (required_section payload ''liner'') (\<lambda>liner.
     bind_r (required_section payload ''dp1'') (\<lambda>dp1.
     bind_r (dp2_section payload) (\<lambda>dp2.
     bind_r (opt_float str_float payload ''mud'' ''ppg'' (PFloat 13.0)) (\<lambda>mud_ppg.
     bind_r (opt_float str_float payload ''holeOverlap'' ''openHoleId'' (PFloat 8.5))
       (\<lambda>open_hole_id.
     bind_r (area_ft2 (PFloat open_hole_id)) (\<lambda>area_hole.
     bind_r (area_ft2 (od liner)) (\<lambda>area_liner.
     let annulus_area = (if area_hole - area_liner > 0 then area_hole - area_liner else 0) in
     bind_r (opt_float str_float payload ''holeOverlap'' ''linerOverlap'' (PInt 300))
       (\<lambda>liner_overlap_ft.
     bind_r (opt_float str_float payload ''holeOverlap'' ''shoeTrackLength'' (PInt 200))
       (\<lambda>shoe_track_ft.
     let cement_interval = liner_overlap_ft + shoe_track_ft;
         cement_volume_bbl = annulus_area * cement_interval * BBL_PER_CUFT
     in Inr \<lparr> cementVolume = cement_volume_bbl,
               mudPPG = mud_ppg,
               annulusAreaFt2 = annulus_area \<rparr>))))))))))"

subsection \<open>Well-formed payloads\<close>





subsection \<open>The request model of the /calculate endpoint\<close>

text \<open>
  The pydantic models of \<^verbatim>\<open>main.py\<close>. A field declared without a default is
  required; a field with a default takes it when its key is absent; keys that are not
  fields are ignored. How pydantic converts a supplied value to \<^verbatim>\<open>float\<close> or
  \<^verbatim>\<open>str\<close> is the library's business: the two conversions are the parameters
  \<open>to_float\<close> and \<open>to_str\<close>, giving \<open>None\<close> where validation fails. A failed
  validation is \<open>None\<close>.
\<close>

record PipeModel =
  od_m :: real
  id_m :: real
  wt_m :: real
  length_m :: real
  md_m :: real
  tvd_m :: real
  grade_m :: string

record HoleOverlapModel =
  openHoleId :: real
  linerOverlap :: real
  shoeTrackLength :: real

record MudModel =
  ppg :: real

record CalcRequest =
  casing :: PipeModel
  liner :: PipeModel
  dp1 :: PipeModel
  dp2 :: "PipeModel option"
  mud :: MudModel
  holeOverlap :: HoleOverlapModel

definition required_field :: "(pyval \<Rightarrow> 'a option) \<Rightarrow> pydict \<Rightarrow> string \<Rightarrow> 'a option" where
  "required_field conv d k = (case map_of d k of None \<Rightarrow> None | Some v \<Rightarrow> conv v)"

definition default_field :: "(pyval \<Rightarrow> 'a option) \<Rightarrow> pydict \<Rightarrow> string \<Rightarrow> 'a \<Rightarrow> 'a option" where
  "default_field conv d k dflt = (case map_of d k of None \<Rightarrow> Some dflt | Some v \<Rightarrow> conv v)"

fun validate_PipeModel ::
  "(pyval \<Rightarrow> real option) \<Rightarrow> (pyval \<Rightarrow> string option) \<Rightarrow> pyval \<Rightarrow> PipeModel option" where
  "validate_PipeModel to_float to_str (PDict d) =
     Option.bind (required_field to_float d ''od'') (\<lambda>a.
     Option.bind (required_field to_float d ''id'') (\<lambda>b.
     Option.bind (required_field to_float d ''wt'') (\<lambda>c.
     Option.bind (required_field to_float d ''length'') (\<lambda>e.
     Option.bind (required_field to_float d ''md'') (\<lambda>g.
     Option.bind (required_field to_float d ''tvd'') (\<lambda>h.
     Option.bind (default_field to_str d ''grade'' '''') (\<lambda>s.
     Some \<lparr> od_m = a, id_m = b, wt_m = c, length_m = e, md_m = g, tvd_m = h,
            grade_m = s \<rparr>)))))))"
| "validate_PipeModel to_float to_str _ = None"

fun validate_HoleOverlapModel :: "(pyval \<Rightarrow> real option) \<Rightarrow> pyval \<Rightarrow> HoleOverlapModel option" where
  "validate_HoleOverlapModel to_float (PDict d) =
     Option.bind (default_field to_float d ''openHoleId'' 8.5) (\<lambda>a.
     Option.bind (default_field to_float d ''linerOverlap'' 300) (\<lambda>b.
     Option.bind (default_field to_float d ''shoeTrackLength'' 200) (\<lambda>c.
     Some \<lparr> openHoleId = a, linerOverlap = b, shoeTrackLength = c \<rparr>)))"
| "validate_HoleOverlapModel to_float _ = None"

fun validate_MudModel :: "(pyval \<Rightarrow> real option) \<Rightarrow> pyval \<Rightarrow> MudModel option" where
  "validate_MudModel to_float (PDict d) =
     Option.bind (default_field to_float d ''ppg'' 13.0) (\<lambda>a. Some \<lparr> ppg = a \<rparr>)"
| "validate_MudModel to_float _ = None"

text \<open>
  \<^verbatim>\<open>dp2: Optional[PipeModel] = None\<close>: an absent key and an explicit
  \<^verbatim>\<open>null\<close> both give \<^verbatim>\<open>None\<close>.
\<close>

definition validate_dp2 ::
  "(pyval \<Rightarrow> real option) \<Rightarrow> (pyval \<Rightarrow> string option) \<Rightarrow> pydict \<Rightarrow> PipeModel option option" where
  "validate_dp2 to_float to_str d =
     (case map_of d ''dp2'' of
        None \<Rightarrow> Some None
      | Some PNone \<Rightarrow> Some None
      | Some v \<Rightarrow> map_option Some (validate_PipeModel to_float to_str v))"

fun validate_CalcRequest ::
  "(pyval \<Rightarrow> real option) \<Rightarrow> (pyval \<Rightarrow> string option) \<Rightarrow> pyval \<Rightarrow> CalcRequest option" where
  "validate_CalcRequest to_float to_str (PDict d) =
     Option.bind (required_field (validate_PipeModel to_float to_str) d ''casing'') (\<lambda>c.
     Option.bind (required_field (validate_PipeModel to_float to_str) d ''liner'') (\<lambda>l.
     Option.bind (required_field (validate_PipeModel to_float to_str) d ''dp1'') (\<lambda>p1.
     Option.bind (validate_dp2 to_float to_str d) (\<lambda>p2.
     Option.bind (required_field (validate_MudModel to_float) d ''mud'') (\<lambda>m.
     Option.bind (required_field (validate_HoleOverlapModel to_float) d ''holeOverlap'') (\<lambda>h.
     Some \<lparr> casing = c, liner = l, dp1 = p1, dp2 = p2, mud = m, holeOverlap = h \<rparr>))))))"
| "validate_CalcRequest to_float to_str _ = None"

text \<open>\<^verbatim>\<open>req.model_dump(by_alias=True)\<close>: every field, a \<^verbatim>\<open>None\<close> included.\<close>

definition dump_PipeModel :: "PipeModel \<Rightarrow> pyval" where
  "dump_PipeModel m = PDict [(''od'', PFloat (od_m m)), (''id'', PFloat (id_m m)),
     (''wt'', PFloat (wt_m m)), (''length'', PFloat (length_m m)), (''md'', PFloat (md_m m)),
     (''tvd'', PFloat (tvd_m m)), (''grade'', PStr (grade_m m))]"

definition model_dump :: "CalcRequest \<Rightarrow> pydict" where
  "model_dump req =
     [(''casing'', dump_PipeModel (casing req)),
      (''liner'', dump_PipeModel (liner req)),
      (''dp1'', dump_PipeModel (dp1 req)),
      (''dp2'', (case dp2 req of None \<Rightarrow> PNone | Some m \<Rightarrow> dump_PipeModel m)),
      (''mud'', PDict [(''ppg'', PFloat (ppg (mud req)))]),
      (''holeOverlap'', PDict [(''openHoleId'', PFloat (openHoleId (holeOverlap req))),
         (''linerOverlap'', PFloat (linerOverlap (holeOverlap req))),
         (''shoeTrackLength'', PFloat (shoeTrackLength (holeOverlap req)))])]"

text \<open>
  The handler of \<^verbatim>\<open>POST /calculate\<close>. The framework validates the body against
  \<^verbatim>\<open>CalcRequest\<close> before the handler runs and answers 422 when that fails; the
  handler turns every exception of the engine into a 400.
\<close>

datatype response =
    Ok200 CalcResult
  | Unprocessable422
  | BadRequest400 error

definition calculate_endpoint ::
  "(pyval \<Rightarrow> real option) \<Rightarrow> (pyval \<Rightarrow> string option) \<Rightarrow> (string \<Rightarrow> real option) \<Rightarrow>
     pyval \<Rightarrow> response" where
  "calculate_endpoint to_float to_str str_float body =
     (case validate_CalcRequest to_float to_str body of
        None \<Rightarrow> Unprocessable422
      | Some req \<Rightarrow>
         (case calculate str_float (model_dump req) None of
            Inl e \<Rightarrow> BadRequest400 e
          | Inr result \<Rightarrow> Ok200 result))"

subsection \<open>Sample inputs\<close>

text \<open>
  The end-to-end scenario of the specification, with the liner's outer diameter and the
  optional part of the payload left open.
\<close>

definition example_pipe :: "pyval \<Rightarrow> pyval" where
  "example_pipe d = PDict [(''od'', d), (''id'', PFloat 6.184), (''wt'', PFloat 0.408),
     (''length'', PInt 1500), (''md'', PInt 9000), (''tvd'', PInt 8800), (''grade'', PStr ''L80'')]"

definition example_payload :: "pyval \<Rightarrow> pydict \<Rightarrow> pydict" where
  "example_payload liner_od optional =
     [(''casing'', example_pipe (PFloat 9.625)),
      (''liner'', example_pipe liner_od),
      (''dp1'', example_pipe (PInt 5))] @ optional"


text \<open>
  A second request with the same liner diameter, mud weight and hole parameters, written
  with ints where the first has floats, and with every other part different: other
  casing and drillpipe, other liner fields, a \<^verbatim>\<open>dp2\<close> section, no grades.
\<close>

definition other_pipe :: "pyval \<Rightarrow> pyval" where
  "other_pipe d = PDict [(''od'', d), (''id'', PFloat 4.276), (''wt'', PFloat 0.362),
     (''length'', PFloat 2750.5), (''md'', PInt 12000), (''tvd'', PInt 11400)]"

definition other_payload :: pydict where
  "other_payload =
     [(''holeOverlap'', PDict [(''shoeTrackLength'', PFloat 200), (''linerOverlap'', PFloat 300),
         (''openHoleId'', PFloat 8.5)]),
      (''mud'', PDict [(''ppg'', PInt 13)]),
      (''dp2'', other_pipe (PFloat 3.5)),
      (''dp1'', other_pipe (PFloat 5.5)),
      (''liner'', other_pipe (PInt 7)),
      (''casing'', other_pipe (PFloat 13.375))]"

text \<open>pydantic's conversion to \<^verbatim>\<open>str\<close> in the sample runs: a string is kept.\<close>

fun str_val :: "pyval \<Rightarrow> string option" where
  "str_val (PStr s) = Some s"
| "str_val _ = None"

section \<open>Properties\<close>

subsection \<open>Auxiliary facts\<close>

lemma bind_r_Inr [simp]: "bind_r (Inr x) f = f x"
  by (simp add: bind_r_def)

lemma bind_r_Inl [simp]: "bind_r (Inl e) f = Inl e"
  by (simp add: bind_r_def)

lemma bind_r_eq_Inr: "bind_r m f = Inr y \<longleftrightarrow> (\<exists>x. m = Inr x \<and> f x = Inr y)"
  by (cases m) simp_all

lemma area_ft2_num: "num_val v = Some x \<Longrightarrow> area_ft2 v = Inr (pi * (x / 12) ^ 2 / 4)"
  by (simp add: area_ft2_def py_div12_def)

lemma area_ft2_eq_Inr:
  "area_ft2 v = Inr a \<longleftrightarrow> (\<exists>x. num_val v = Some x \<and> a = pi * (x / 12) ^ 2 / 4)"
  by (cases "num_val v") (auto simp: area_ft2_def py_div12_def)

lemma calculate_Inr:
  assumes "required_section p ''casing'' = Inr c"
    and "required_section p ''liner'' = Inr l"
    and "required_section p ''dp1'' = Inr d1"
    and "dp2_section p = Inr d2"
    and "opt_float sf p ''mud'' ''ppg'' (PFloat 13.0) = Inr m"
    and "opt_float sf p ''holeOverlap'' ''openHoleId'' (PFloat 8.5) = Inr oh"
    and "num_val (od l) = Some x"
    and "opt_float sf p ''holeOverlap'' ''linerOverlap'' (PInt 300) = Inr lo"
    and "opt_float sf p ''holeOverlap'' ''shoeTrackLength'' (PInt 200) = Inr st"
  shows "calculate sf p f =
    Inr \<lparr> cementVolume =
            max 0 (pi * (oh / 12) ^ 2 / 4 - pi * (x / 12) ^ 2 / 4) * (lo + st) * 0.1781076,
          mudPPG = m,
          annulusAreaFt2 = max 0 (pi * (oh / 12) ^ 2 / 4 - pi * (x / 12) ^ 2 / 4) \<rparr>"
  using assms
  by (simp add: calculate_def area_ft2_num BBL_PER_CUFT_def max_def Let_def)

lemma calculate_InrD:
  assumes "calculate sf p f = Inr r"
  shows "\<exists>c l d1 d2 m oh x lo st.
      required_section p ''casing'' = Inr c \<and>
      required_section p ''liner'' = Inr l \<and>
      required_section p ''dp1'' = Inr d1 \<and>
      dp2_section p = Inr d2 \<and>
      opt_float sf p ''mud'' ''ppg'' (PFloat 13.0) = Inr m \<and>
      opt_float sf p ''holeOverlap'' ''openHoleId'' (PFloat 8.5) = Inr oh \<and>
      num_val (od l) = Some x \<and>
      opt_float sf p ''holeOverlap'' ''linerOverlap'' (PInt 300) = Inr lo \<and>
      opt_float sf p ''holeOverlap'' ''shoeTrackLength'' (PInt 200) = Inr st \<and>
      r = \<lparr> cementVolume =
              max 0 (pi * (oh / 12) ^ 2 / 4 - pi * (x / 12) ^ 2 / 4) * (lo + st) * 0.1781076,
            mudPPG = m,
            annulusAreaFt2 = max 0 (pi * (oh / 12) ^ 2 / 4 - pi * (x / 12) ^ 2 / 4) \<rparr>"
proof -
  from assms obtain c l d1 d2 m oh x lo st where parts:
      "required_section p ''casing'' = Inr c"
      "required_section p ''liner'' = Inr l"
      "required_section p ''dp1'' = Inr d1"
      "dp2_section p = Inr d2"
      "opt_float sf p ''mud'' ''ppg'' (PFloat 13.0) = Inr m"
      "opt_float sf p ''holeOverlap'' ''openHoleId'' (PFloat 8.5) = Inr oh"
      "num_val (od l) = Some x"
      "opt_float sf p ''holeOverlap'' ''linerOverlap'' (PInt 300) = Inr lo"
      "opt_float sf p ''holeOverlap'' ''shoeTrackLength'' (PInt 200) = Inr st"
    unfolding calculate_def bind_r_eq_Inr area_ft2_eq_Inr Let_def by blast
  from calculate_Inr [OF parts, of f] assms parts show ?thesis
    by simp
qed






lemma required_section_present:
  "map_of p name = Some v \<Longrightarrow> required_section p name = PipeSection_init v"
  by (simp add: required_section_def dict_index_def)


lemma PipeSection_init_Inr:
  "PipeSection_init v = Inr s \<Longrightarrow> \<exists>d. v = PDict d \<and> keys_ok d \<and> od s = the (map_of d ''od'')"
  by (cases v) (auto split: if_splits)





subsection \<open>The sample inputs\<close>

lemma keys_ok_seven: "keys_ok [(''od'', d), (''id'', a), (''wt'', b),
     (''length'', c), (''md'', e), (''tvd'', g), (''grade'', h)]"
  by (simp add: keys_ok_def pipe_fields_def required_fields_def)




lemma example_map_of:
  "map_of (example_payload d opt) ''dp2'' = map_of opt ''dp2''"
  "map_of (example_payload d opt) ''mud'' = map_of opt ''mud''"
  "map_of (example_payload d opt) ''holeOverlap'' = map_of opt ''holeOverlap''"
  by (simp_all add: example_payload_def)











subsection \<open>The cement volume\<close>



subsection \<open>The annulus area\<close>




subsection \<open>The area helper\<close>



subsection \<open>Defaults of the optional parts\<close>




subsection \<open>What the result depends on\<close>



subsection \<open>The mud weight\<close>



subsection \<open>The depth-lookup callback\<close>

text \<open>
  Claim C8. The callback \<open>find_tvd\<close> is never called: the outcome of \<open>calculate\<close>,
  result or exception, is the same for any two callbacks, \<open>None\<close> included.
\<close>

theorem find_tvd_unused: "calculate sf p f = calculate sf p g"
  by (simp add: calculate_def)

theorem find_tvd_unused_witness:
  "calculate Map.empty other_payload None = calculate Map.empty other_payload (Some uminus)"
  by (rule find_tvd_unused)

subsection \<open>When the engine raises\<close>

lemma PipeSection_init_cases:
  "PipeSection_init v = Inl TypeError \<or> (\<exists>s. PipeSection_init v = Inr s)"
  by (cases v) simp_all

lemma keys_ok_iff:
  "keys_ok d \<longleftrightarrow>
     \<not> ((\<exists>k \<in> set (map fst d). k \<notin> set [''od'', ''id'', ''wt'', ''length'', ''md'', ''tvd'', ''grade'']) \<or>
        (\<exists>k \<in> set [''od'', ''id'', ''wt'', ''length'', ''md'', ''tvd'']. k \<notin> set (map fst d)))"
  unfolding keys_ok_def pipe_fields_def required_fields_def by auto





subsection \<open>Keys of a pipe section\<close>

text \<open>
  Claim C9. A dict that holds a key other than \<open>od\<close>, \<open>id\<close>, \<open>wt\<close>,
  \<open>length\<close>, \<open>md\<close>, \<open>tvd\<close>, \<open>grade\<close>, or lacks one of the first six, makes
  the \<open>PipeSection\<close> constructor raise TypeError. So \<open>calculate\<close> raises whenever
  \<open>casing\<close>, \<open>liner\<close>, \<open>dp1\<close> or a supplied \<open>dp2\<close> is such a dict, and
  the exception is that TypeError when the three required sections are all there.
\<close>

theorem pipe_section_rejects_bad_keys:
  assumes "(\<exists>k \<in> set (map fst d). k \<notin> set [''od'', ''id'', ''wt'', ''length'', ''md'', ''tvd'', ''grade'']) \<or>
           (\<exists>k \<in> set [''od'', ''id'', ''wt'', ''length'', ''md'', ''tvd'']. k \<notin> set (map fst d))"
  shows "PipeSection_init (PDict d) = Inl TypeError \<and>
    (name \<in> {''casing'', ''liner'', ''dp1'', ''dp2''} \<and> map_of p name = Some (PDict d) \<longrightarrow>
       (\<exists>e. calculate sf p f = Inl e)) \<and>
    (name \<in> {''casing'', ''liner'', ''dp1'', ''dp2''} \<and> map_of p name = Some (PDict d) \<and>
     map_of p ''casing'' \<noteq> None \<and> map_of p ''liner'' \<noteq> None \<and> map_of p ''dp1'' \<noteq> None \<longrightarrow>
       calculate sf p f = Inl TypeError)"
proof (intro conjI impI)
  from assms have bad: "\<not> keys_ok d"
    by (simp only: keys_ok_iff not_not)
  then show init: "PipeSection_init (PDict d) = Inl TypeError"
    by simp
  have no_result: "calculate sf p f \<noteq> Inr r"
    if "name \<in> {''casing'', ''liner'', ''dp1'', ''dp2''}" and "map_of p name = Some (PDict d)" for r
  proof
    assume "calculate sf p f = Inr r"
    from calculate_InrD [OF this] obtain c l d1 d2 where
        "required_section p ''casing'' = Inr c" "required_section p ''liner'' = Inr l"
        "required_section p ''dp1'' = Inr d1" "dp2_section p = Inr d2"
      by blast
    with that init show False
      by (auto simp: required_section_present dp2_section_def dict_get_def)
  qed
  {
    assume a: "name \<in> {''casing'', ''liner'', ''dp1'', ''dp2''} \<and> map_of p name = Some (PDict d)"
    with no_result show "\<exists>e. calculate sf p f = Inl e"
      by (cases "calculate sf p f") auto
  }
  {
    assume a: "name \<in> {''casing'', ''liner'', ''dp1'', ''dp2''} \<and> map_of p name = Some (PDict d) \<and>
      map_of p ''casing'' \<noteq> None \<and> map_of p ''liner'' \<noteq> None \<and> map_of p ''dp1'' \<noteq> None"
    then obtain vc vl v1 where present:
        "map_of p ''casing'' = Some vc" "map_of p ''liner'' = Some vl" "map_of p ''dp1'' = Some v1"
      by blast
    note sec = required_section_present [OF present(1)] required_section_present [OF present(2)]
      required_section_present [OF present(3)]
    show "calculate sf p f = Inl TypeError"
    proof (rule ccontr)
      assume other: "calculate sf p f \<noteq> Inl TypeError"
      from other PipeSection_init_cases [of vc] obtain c where c: "PipeSection_init vc = Inr c"
        by (auto simp: calculate_def sec)
      from other c PipeSection_init_cases [of vl] obtain l where l: "PipeSection_init vl = Inr l"
        by (auto simp: calculate_def sec)
      from other c l PipeSection_init_cases [of v1] obtain d1 where d1: "PipeSection_init v1 = Inr d1"
        by (auto simp: calculate_def sec)
      from other c l d1 PipeSection_init_cases [of "dict_get p ''dp2'' dp2_default"]
      obtain d2 where d2: "dp2_section p = Inr d2"
        by (auto simp: calculate_def sec dp2_section_def)
      from a c l d1 d2 present init show False
        by (auto simp: dp2_section_def dict_get_def)
    qed
  }
qed

theorem pipe_section_rejects_bad_keys_witness:
  "PipeSection_init (PDict [(''od'', PFloat 5), (''weight'', PFloat 19.5)]) = Inl TypeError \<and>
   calculate Map.empty
     (example_payload (PFloat 7) [(''dp2'', PDict [(''od'', PFloat 5), (''weight'', PFloat 19.5)])])
     None = Inl TypeError"
proof -
  let ?d = "[(''od'', PFloat 5), (''weight'', PFloat 19.5)]"
  let ?p = "example_payload (PFloat 7) [(''dp2'', PDict ?d)]"
  have bad: "(\<exists>k \<in> set (map fst ?d). k \<notin> set [''od'', ''id'', ''wt'', ''length'', ''md'', ''tvd'', ''grade'']) \<or>
           (\<exists>k \<in> set [''od'', ''id'', ''wt'', ''length'', ''md'', ''tvd'']. k \<notin> set (map fst ?d))"
    by simp
  have present: "map_of ?p ''dp2'' = Some (PDict ?d)" "map_of ?p ''casing'' \<noteq> None"
      "map_of ?p ''liner'' \<noteq> None" "map_of ?p ''dp1'' \<noteq> None"
    by (simp_all add: example_payload_def)
  from pipe_section_rejects_bad_keys [OF bad, of "''dp2''" ?p Map.empty None] present
  show ?thesis
    by simp
qed

subsection \<open>The request model at the HTTP boundary\<close>

lemma dump_section:
  "PipeSection_init (dump_PipeModel m) =
     Inr \<lparr> od = PFloat (od_m m), id_p = PFloat (id_m m), wt = PFloat (wt_m m),
           length_p = PFloat (length_m m), md = PFloat (md_m m), tvd = PFloat (tvd_m m),
           grade = PStr (grade_m m) \<rparr>"
  by (simp add: dump_PipeModel_def keys_ok_seven dict_get_def)

lemma model_dump_map_of:
  "map_of (model_dump req) ''casing'' = Some (dump_PipeModel (casing req))"
  "map_of (model_dump req) ''liner'' = Some (dump_PipeModel (liner req))"
  "map_of (model_dump req) ''dp1'' = Some (dump_PipeModel (dp1 req))"
  "map_of (model_dump req) ''dp2'' =
     Some (case dp2 req of None \<Rightarrow> PNone | Some m \<Rightarrow> dump_PipeModel m)"
  "map_of (model_dump req) ''mud'' = Some (PDict [(''ppg'', PFloat (ppg (mud req)))])"
  "map_of (model_dump req) ''holeOverlap'' =
     Some (PDict [(''openHoleId'', PFloat (openHoleId (holeOverlap req))),
       (''linerOverlap'', PFloat (linerOverlap (holeOverlap req))),
       (''shoeTrackLength'', PFloat (shoeTrackLength (holeOverlap req)))])"
  by (simp_all add: model_dump_def)

lemma model_dump_floats:
  "opt_float sf (model_dump req) ''mud'' ''ppg'' dflt = Inr (ppg (mud req))"
  "opt_float sf (model_dump req) ''holeOverlap'' ''openHoleId'' dflt =
     Inr (openHoleId (holeOverlap req))"
  "opt_float sf (model_dump req) ''holeOverlap'' ''linerOverlap'' dflt =
     Inr (linerOverlap (holeOverlap req))"
  "opt_float sf (model_dump req) ''holeOverlap'' ''shoeTrackLength'' dflt =
     Inr (shoeTrackLength (holeOverlap req))"
  by (simp_all add: opt_float_def dict_get_def model_dump_map_of py_float_def)

text \<open>
  What the engine does with a dumped request. A request without \<^verbatim>\<open>dp2\<close> is dumped
  with \<^verbatim>\<open>"dp2": None\<close>, which is a present key: the engine's default is not taken
  and \<^verbatim>\<open>PipeSection(**None)\<close> raises TypeError.
\<close>

lemma calculate_model_dump:
  "calculate sf (model_dump req) f =
     (case dp2 req of
        None \<Rightarrow> Inl TypeError
      | Some m \<Rightarrow>
          Inr \<lparr> cementVolume =
                  max 0 (pi * (openHoleId (holeOverlap req) / 12) ^ 2 / 4 -
                         pi * (od_m (liner req) / 12) ^ 2 / 4) *
                  (linerOverlap (holeOverlap req) + shoeTrackLength (holeOverlap req)) * 0.1781076,
                mudPPG = ppg (mud req),
                annulusAreaFt2 =
                  max 0 (pi * (openHoleId (holeOverlap req) / 12) ^ 2 / 4 -
                         pi * (od_m (liner req) / 12) ^ 2 / 4) \<rparr>)"
proof (cases "dp2 req")
  case None
  then have "dp2_section (model_dump req) = Inl TypeError"
    by (simp add: dp2_section_def dict_get_def model_dump_map_of)
  with None show ?thesis
    by (simp add: calculate_def required_section_present model_dump_map_of dump_section)
next
  case (Some m)
  then have d2: "dp2_section (model_dump req) = PipeSection_init (dump_PipeModel m)"
    by (simp add: dp2_section_def dict_get_def model_dump_map_of)
  have "calculate sf (model_dump req) f =
          Inr \<lparr> cementVolume =
                  max 0 (pi * (openHoleId (holeOverlap req) / 12) ^ 2 / 4 -
                         pi * (od_m (liner req) / 12) ^ 2 / 4) *
                  (linerOverlap (holeOverlap req) + shoeTrackLength (holeOverlap req)) * 0.1781076,
                mudPPG = ppg (mud req),
                annulusAreaFt2 =
                  max 0 (pi * (openHoleId (holeOverlap req) / 12) ^ 2 / 4 -
                         pi * (od_m (liner req) / 12) ^ 2 / 4) \<rparr>"
    by (rule calculate_Inr [OF
          required_section_present [OF model_dump_map_of(1), unfolded dump_section]
          required_section_present [OF model_dump_map_of(2), unfolded dump_section]
          required_section_present [OF model_dump_map_of(3), unfolded dump_section]
          d2 [unfolded dump_section] model_dump_floats(1,2) _ model_dump_floats(3,4)])
       simp
  with Some show ?thesis
    by simp
qed

lemma endpoint_dp2_omitted:
  assumes "validate_CalcRequest tf ts body = Some req" and "dp2 req = None"
  shows "calculate_endpoint tf ts sf body = BadRequest400 TypeError"
  using assms by (simp add: calculate_endpoint_def calculate_model_dump)

lemma validate_CalcRequest_Some:
  assumes "validate_CalcRequest tf ts (PDict b) = Some req"
  shows "required_field (validate_MudModel tf) b ''mud'' = Some (mud req)"
    and "required_field (validate_HoleOverlapModel tf) b ''holeOverlap'' = Some (holeOverlap req)"
  using assms by (auto simp: Option.bind_eq_Some_conv)

lemma validate_mud_default:
  assumes "validate_CalcRequest tf ts (PDict b) = Some req"
    and "map_of b ''mud'' = Some (PDict m)" and "map_of m ''ppg'' = None"
  shows "ppg (mud req) = 13.0"
proof -
  from validate_CalcRequest_Some(1) [OF assms(1)] assms(2,3)
  have "mud req = \<lparr> ppg = 13.0 \<rparr>"
    by (simp add: required_field_def default_field_def)
  then show ?thesis
    by simp
qed

lemma validate_hole_Some:
  assumes "validate_CalcRequest tf ts (PDict b) = Some req"
    and "map_of b ''holeOverlap'' = Some (PDict h)"
  shows "default_field tf h ''openHoleId'' 8.5 = Some (openHoleId (holeOverlap req))"
    and "default_field tf h ''linerOverlap'' 300 = Some (linerOverlap (holeOverlap req))"
    and "default_field tf h ''shoeTrackLength'' 200 = Some (shoeTrackLength (holeOverlap req))"
  using validate_CalcRequest_Some(2) [OF assms(1)] assms(2)
  by (cases "holeOverlap req"; auto simp: required_field_def Option.bind_eq_Some_conv)+

lemma default_field_absent: "map_of d k = None \<Longrightarrow> default_field conv d k dflt = Some dflt"
  by (simp add: default_field_def)

text \<open>
  Claim C10, as amended. A body without \<open>mud\<close> or without \<open>holeOverlap\<close> fails
  validation and is answered 422 before the engine runs. Whenever the engine runs, it
  runs on a dumped request, which holds \<open>mud.ppg\<close> and all three \<open>holeOverlap\<close>
  keys, so none of the engine's own defaults for them is taken (the value read does not
  depend on the default). Inside a supplied \<open>mud\<close> or \<open>holeOverlap\<close> the request
  model has defaults of its own: 13.0, 8.5, 300 and 200.
\<close>

theorem request_model_requires_mud_and_hole:
  "(map_of b ''mud'' = None \<or> map_of b ''holeOverlap'' = None \<longrightarrow>
      validate_CalcRequest tf ts (PDict b) = None \<and>
      calculate_endpoint tf ts sf (PDict b) = Unprocessable422) \<and>
   (calculate_endpoint tf ts sf body \<noteq> Unprocessable422 \<longrightarrow>
      (\<exists>req. validate_CalcRequest tf ts body = Some req \<and>
         calculate_endpoint tf ts sf body =
           (case calculate sf (model_dump req) None of
              Inl e \<Rightarrow> BadRequest400 e | Inr r \<Rightarrow> Ok200 r))) \<and>
   opt_float sf (model_dump req) ''mud'' ''ppg'' dflt = Inr (ppg (mud req)) \<and>
   opt_float sf (model_dump req) ''holeOverlap'' ''openHoleId'' dflt =
     Inr (openHoleId (holeOverlap req)) \<and>
   opt_float sf (model_dump req) ''holeOverlap'' ''linerOverlap'' dflt =
     Inr (linerOverlap (holeOverlap req)) \<and>
   opt_float sf (model_dump req) ''holeOverlap'' ''shoeTrackLength'' dflt =
     Inr (shoeTrackLength (holeOverlap req)) \<and>
   (validate_CalcRequest tf ts (PDict b) = Some req \<and> map_of b ''mud'' = Some (PDict m) \<and>
    map_of m ''ppg'' = None \<longrightarrow> ppg (mud req) = 13.0) \<and>
   (validate_CalcRequest tf ts (PDict b) = Some req \<and> map_of b ''holeOverlap'' = Some (PDict h) \<and>
    map_of h ''openHoleId'' = None \<longrightarrow> openHoleId (holeOverlap req) = 8.5) \<and>
   (validate_CalcRequest tf ts (PDict b) = Some req \<and> map_of b ''holeOverlap'' = Some (PDict h) \<and>
    map_of h ''linerOverlap'' = None \<longrightarrow> linerOverlap (holeOverlap req) = 300) \<and>
   (validate_CalcRequest tf ts (PDict b) = Some req \<and> map_of b ''holeOverlap'' = Some (PDict h) \<and>
    map_of h ''shoeTrackLength'' = None \<longrightarrow> shoeTrackLength (holeOverlap req) = 200)"
proof (intro conjI impI)
  assume a: "map_of b ''mud'' = None \<or> map_of b ''holeOverlap'' = None"
  then show none: "validate_CalcRequest tf ts (PDict b) = None"
    by (auto simp: required_field_def Option.bind_eq_None_conv)
  then show "calculate_endpoint tf ts sf (PDict b) = Unprocessable422"
    by (simp add: calculate_endpoint_def)
next
  assume "calculate_endpoint tf ts sf body \<noteq> Unprocessable422"
  then show "\<exists>req. validate_CalcRequest tf ts body = Some req \<and>
         calculate_endpoint tf ts sf body =
           (case calculate sf (model_dump req) None of
              Inl e \<Rightarrow> BadRequest400 e | Inr r \<Rightarrow> Ok200 r)"
    by (cases "validate_CalcRequest tf ts body") (simp_all add: calculate_endpoint_def)
next
  assume "validate_CalcRequest tf ts (PDict b) = Some req \<and> map_of b ''mud'' = Some (PDict m) \<and>
    map_of m ''ppg'' = None"
  then show "ppg (mud req) = 13.0"
    using validate_mud_default [of tf ts b req m] by blast
next
  assume "validate_CalcRequest tf ts (PDict b) = Some req \<and> map_of b ''holeOverlap'' = Some (PDict h) \<and>
    map_of h ''openHoleId'' = None"
  then show "openHoleId (holeOverlap req) = 8.5"
    using validate_hole_Some(1) [of tf ts b req h] default_field_absent [of h "''openHoleId''" tf]
    by auto
next
  assume "validate_CalcRequest tf ts (PDict b) = Some req \<and> map_of b ''holeOverlap'' = Some (PDict h) \<and>
    map_of h ''linerOverlap'' = None"
  then show "linerOverlap (holeOverlap req) = 300"
    using validate_hole_Some(2) [of tf ts b req h] default_field_absent [of h "''linerOverlap''" tf]
    by auto
next
  assume "validate_CalcRequest tf ts (PDict b) = Some req \<and> map_of b ''holeOverlap'' = Some (PDict h) \<and>
    map_of h ''shoeTrackLength'' = None"
  then show "shoeTrackLength (holeOverlap req) = 200"
    using validate_hole_Some(3) [of tf ts b req h] default_field_absent [of h "''shoeTrackLength''" tf]
    by auto
qed (simp_all add: model_dump_floats)

lemma validate_example_pipe:
  "validate_PipeModel num_val str_val (example_pipe d) =
     map_option (\<lambda>x. \<lparr> od_m = x, id_m = 6.184, wt_m = 0.408, length_m = 1500, md_m = 9000,
       tvd_m = 8800, grade_m = ''L80'' \<rparr>) (num_val d)"
  by (cases "num_val d") (simp_all add: example_pipe_def required_field_def default_field_def)

lemma example_payload_fields:
  "map_of (example_payload d opt) ''casing'' = Some (example_pipe (PFloat 9.625))"
  "map_of (example_payload d opt) ''liner'' = Some (example_pipe d)"
  "map_of (example_payload d opt) ''dp1'' = Some (example_pipe (PInt 5))"
  by (simp_all add: example_payload_def)

lemma validate_dp2_example:
  "validate_dp2 num_val str_val (example_payload d ((''dp2'', example_pipe e) # rest)) =
     map_option Some (validate_PipeModel num_val str_val (example_pipe e))"
  by (simp add: validate_dp2_def example_map_of example_pipe_def)

lemma validate_example_body:
  "validate_CalcRequest num_val str_val
     (PDict (example_payload (PFloat 7)
       [(''dp2'', example_pipe (PFloat 3.5)), (''mud'', PDict []), (''holeOverlap'', PDict [])])) =
   Some \<lparr> casing = \<lparr> od_m = 9.625, id_m = 6.184, wt_m = 0.408, length_m = 1500, md_m = 9000,
                     tvd_m = 8800, grade_m = ''L80'' \<rparr>,
          liner = \<lparr> od_m = 7, id_m = 6.184, wt_m = 0.408, length_m = 1500, md_m = 9000,
                    tvd_m = 8800, grade_m = ''L80'' \<rparr>,
          dp1 = \<lparr> od_m = 5, id_m = 6.184, wt_m = 0.408, length_m = 1500, md_m = 9000,
                  tvd_m = 8800, grade_m = ''L80'' \<rparr>,
          dp2 = Some \<lparr> od_m = 3.5, id_m = 6.184, wt_m = 0.408, length_m = 1500, md_m = 9000,
                       tvd_m = 8800, grade_m = ''L80'' \<rparr>,
          mud = \<lparr> ppg = 13.0 \<rparr>,
          holeOverlap = \<lparr> openHoleId = 8.5, linerOverlap = 300, shoeTrackLength = 200 \<rparr> \<rparr>"
  by (simp add: required_field_def default_field_def example_payload_fields example_map_of
      validate_example_pipe validate_dp2_example)

theorem request_model_counterexample:
  "map_of (example_payload (PFloat 7)
       [(''dp2'', example_pipe (PFloat 3.5)), (''mud'', PDict []), (''holeOverlap'', PDict [])])
     ''mud'' = Some (PDict []) \<and>
   map_of (example_payload (PFloat 7)
       [(''dp2'', example_pipe (PFloat 3.5)), (''mud'', PDict []), (''holeOverlap'', PDict [])])
     ''holeOverlap'' = Some (PDict []) \<and>
   map_option mud (validate_CalcRequest num_val str_val
     (PDict (example_payload (PFloat 7)
       [(''dp2'', example_pipe (PFloat 3.5)), (''mud'', PDict []), (''holeOverlap'', PDict [])]))) =
     Some \<lparr> ppg = 13.0 \<rparr> \<and>
   map_option holeOverlap (validate_CalcRequest num_val str_val
     (PDict (example_payload (PFloat 7)
       [(''dp2'', example_pipe (PFloat 3.5)), (''mud'', PDict []), (''holeOverlap'', PDict [])]))) =
     Some \<lparr> openHoleId = 8.5, linerOverlap = 300, shoeTrackLength = 200 \<rparr> \<and>
   calculate_endpoint num_val str_val Map.empty
     (PDict (example_payload (PFloat 7)
       [(''dp2'', example_pipe (PFloat 3.5)), (''mud'', PDict []), (''holeOverlap'', PDict [])])) =
     Ok200 \<lparr> cementVolume =
               max 0 (pi * (8.5 / 12) ^ 2 / 4 - pi * (7 / 12) ^ 2 / 4) * (300 + 200) * 0.1781076,
             mudPPG = 13.0,
             annulusAreaFt2 = max 0 (pi * (8.5 / 12) ^ 2 / 4 - pi * (7 / 12) ^ 2 / 4) \<rparr>"
  unfolding calculate_endpoint_def validate_example_body
  by (simp add: calculate_model_dump example_map_of)

theorem request_model_requires_mud_and_hole_witness:
  "map_of (example_payload (PFloat 7) [(''holeOverlap'', PDict [])]) ''mud'' = None \<and>
   calculate_endpoint num_val str_val Map.empty
     (PDict (example_payload (PFloat 7) [(''holeOverlap'', PDict [])])) = Unprocessable422 \<and>
   opt_float Map.empty (model_dump
       \<lparr> casing = \<lparr> od_m = 9.625, id_m = 6.184, wt_m = 0.408, length_m = 1500, md_m = 9000,
                     tvd_m = 8800, grade_m = ''L80'' \<rparr>,
          liner = \<lparr> od_m = 7, id_m = 6.184, wt_m = 0.408, length_m = 1500, md_m = 9000,
                    tvd_m = 8800, grade_m = ''L80'' \<rparr>,
          dp1 = \<lparr> od_m = 5, id_m = 6.184, wt_m = 0.408, length_m = 1500, md_m = 9000,
                  tvd_m = 8800, grade_m = ''L80'' \<rparr>,
          dp2 = None,
          mud = \<lparr> ppg = 12.5 \<rparr>,
          holeOverlap = \<lparr> openHoleId = 8.5, linerOverlap = 300, shoeTrackLength = 200 \<rparr> \<rparr>)
     ''mud'' ''ppg'' (PFloat 13.0) = Inr 12.5"
proof -
  have absent: "map_of (example_payload (PFloat 7) [(''holeOverlap'', PDict [])]) ''mud'' = None"
    by (simp add: example_map_of)
  from request_model_requires_mud_and_hole
    [of "example_payload (PFloat 7) [(''holeOverlap'', PDict [])]" num_val str_val Map.empty _
      "\<lparr> casing = \<lparr> od_m = 9.625, id_m = 6.184, wt_m = 0.408, length_m = 1500, md_m = 9000,
                     tvd_m = 8800, grade_m = ''L80'' \<rparr>,
          liner = \<lparr> od_m = 7, id_m = 6.184, wt_m = 0.408, length_m = 1500, md_m = 9000,
                    tvd_m = 8800, grade_m = ''L80'' \<rparr>,
          dp1 = \<lparr> od_m = 5, id_m = 6.184, wt_m = 0.408, length_m = 1500, md_m = 9000,
                  tvd_m = 8800, grade_m = ''L80'' \<rparr>,
          dp2 = None,
          mud = \<lparr> ppg = 12.5 \<rparr>,
          holeOverlap = \<lparr> openHoleId = 8.5, linerOverlap = 300, shoeTrackLength = 200 \<rparr> \<rparr>"
      "PFloat 13.0"]
    absent
  show ?thesis
    by simp
qed

end
